theory Spec2Isabelle
  imports Main "HOL-Library.Sublist" "HOL-Library.Multiset"
begin

section \<open>Node containers: \<open>provision/docker/nodecontainer/nodecontainer.go\<close>\<close>

text \<open>
  A shallow embedding of the node-container package. Go strings are byte sequences and
  are modelled as \<open>string\<close>; a Go \<open>error\<close> value is a member of the datatype
  \<open>error\<close>, and a \<open>nil\<close> error is \<open>None\<close>. The collaborators outside the file (the
  scoped configuration store, the docker client, the cluster) are an environment whose
  answers are parameters of the model; every call made to them is recorded in a trace.
\<close>

subsection \<open>Data model\<close>

text \<open>
  \<open>docker.Config\<close> and \<open>docker.HostConfig\<close> belong to the docker client library; only
  the fields the package reads or writes are kept. The field \<open>Image\<close> and the method
  \<open>image\<close> are written \<open>Image_c\<close> and \<open>image_c\<close>.
\<close>

record docker_Config =
  Image_c :: string
  Env :: "string list"

record docker_HostConfig =
  Binds :: "string list"

record NodeContainerConfig =
  Name :: string
  PinnedImage :: string
  Config :: docker_Config
  HostConfig :: docker_HostConfig

text \<open>\<open>cluster.Node\<close>: an address and a metadata map; the pool is \<open>Metadata["pool"]\<close>.\<close>

record Node =
  Address :: string
  Metadata :: "string \<rightharpoonup> string"

text \<open>
  Errors. \<open>ValidationErr\<close> is the package's own type. \<open>ErrContainerAlreadyExists\<close> is
  the docker client's sentinel value (compared with \<open>==\<close>), \<open>ContainerAlreadyRunning\<close>
  its error type recognised by a type assertion. \<open>Err\<close> stands for every other error
  (\<open>errors.New\<close>, \<open>fmt.Errorf\<close>, errors of the collaborators).
\<close>

datatype error =
    ValidationErr string
  | ErrContainerAlreadyExists
  | ContainerAlreadyRunning string
  | Err string

text \<open>The \<open>Error()\<close> method; the two docker messages are those of the client library.\<close>

fun Error :: "error \<Rightarrow> string" where
  "Error (ValidationErr message) = message"
| "Error ErrContainerAlreadyExists = ''container already exists''"
| "Error (ContainerAlreadyRunning ident) = ''Container already running: '' @ ident"
| "Error (Err message) = message"

subsection \<open>Strings\<close>

text \<open>
  \<open>strings.SplitN(s, sep, n)\<close> for a separator of one byte, which is what every call in
  the file passes (\<open>"/"\<close>, \<open>":"\<close>, \<open>"="\<close>): \<open>n = 0\<close> gives no piece, otherwise at
  most \<open>n\<close> pieces are cut at the first separators and the last piece is the unsplit
  remainder.
\<close>

fun SplitN :: "string \<Rightarrow> char \<Rightarrow> nat \<Rightarrow> string list" where
  "SplitN s sep 0 = []"
| "SplitN s sep (Suc 0) = [s]"
| "SplitN s sep (Suc (Suc n)) =
     (if sep \<in> set s
      then takeWhile (\<lambda>c. c \<noteq> sep) s # SplitN (tl (dropWhile (\<lambda>c. c \<noteq> sep) s)) sep (Suc n)
      else [s])"

text \<open>\<open>strings.Join(elems, sep)\<close>.\<close>

fun Join :: "string list \<Rightarrow> string \<Rightarrow> string" where
  "Join [] sep = []"
| "Join [x] sep = x"
| "Join (x # y # ys) sep = x @ sep @ Join (y # ys) sep"

text \<open>A slice read \<open>xs[i]\<close>: Go panics when the index is out of range.\<close>

definition index :: "'a list \<Rightarrow> nat \<Rightarrow> 'a option" where
  "index xs i = (if i < length xs then Some (xs ! i) else None)"

subsection \<open>Validation and the registry operations\<close>

definition validate :: "NodeContainerConfig \<Rightarrow> string \<Rightarrow> error option" where
  "validate c pool =
     (if Name c = [] then
        Some (ValidationErr ''node container config name cannot be empty'')
      else if Image_c (Config c) \<noteq> [] \<and> pool \<noteq> [] then
        Some (ValidationErr
          ''it's not possible to override image in pool, please set image as a default value'')
      else None)"

text \<open>
  Calls to the collaborators. The store calls carry the configuration name given to
  \<open>configFor\<close>, then the arguments of the store method; the docker calls carry the
  arguments the package passes.
\<close>

datatype call =
    SaveCall string string NodeContainerConfig
  | SaveMergeCall string string NodeContainerConfig
  | SetFieldCall string string string string
  | NewClientCall string
  | PullImageCall string
  | CreateContainerCall string docker_Config docker_HostConfig
  | RemoveContainerCall string bool
  | StartContainerCall string docker_HostConfig

text \<open>
  The environment. \<open>answer env tr c\<close> is the error (or \<open>None\<close>) with which the
  collaborator answers the call \<open>c\<close> after the history \<open>tr\<close>; \<open>pull_output\<close> is the
  text a pull writes to its output stream. \<open>GetImageDigest\<close> (package \<open>fix\<close>),
  \<open>InitializeBS\<close>, the store's \<open>Load\<close> and \<open>FindAllScopedConfigNames\<close> and the
  cluster's \<open>UnfilteredNodes\<close> are not part of the file and are taken as they answer.
\<close>

record env =
  answer :: "call list \<Rightarrow> call \<Rightarrow> error option"
  pull_output :: "call list \<Rightarrow> string \<Rightarrow> string"
  GetImageDigest :: "string \<Rightarrow> string \<times> error option"
  InitializeBS :: "bool \<times> error option"
  Load :: "string \<Rightarrow> string \<Rightarrow> error + NodeContainerConfig"
  FindAllScopedConfigNames :: "error + string list"
  UnfilteredNodes :: "error + Node list"

definition do_call :: "env \<Rightarrow> call \<Rightarrow> call list \<Rightarrow> error option \<times> call list" where
  "do_call e c tr = (answer e tr c, tr @ [c])"

definition AddNewContainer ::
  "env \<Rightarrow> string \<Rightarrow> NodeContainerConfig \<Rightarrow> call list \<Rightarrow> error option \<times> call list" where
  "AddNewContainer e pool c tr =
     (case validate c pool of
        Some err \<Rightarrow> (Some err, tr)
      | None \<Rightarrow> do_call e (SaveCall (Name c) pool c) tr)"

definition UpdateContainer ::
  "env \<Rightarrow> string \<Rightarrow> NodeContainerConfig \<Rightarrow> call list \<Rightarrow> error option \<times> call list" where
  "UpdateContainer e pool c tr =
     (case validate c pool of
        Some err \<Rightarrow> (Some err, tr)
      | None \<Rightarrow> do_call e (SaveMergeCall (Name c) pool c) tr)"

definition LoadNodeContainer :: "env \<Rightarrow> string \<Rightarrow> string \<Rightarrow> error + NodeContainerConfig" where
  "LoadNodeContainer e pool name = Load e name pool"

subsection \<open>Environment variables\<close>

text \<open>
  \<open>EnvMap\<close> reads \<open>parts[0]\<close> and \<open>parts[1]\<close> of each entry split at the first
  \<open>=\<close>; a read out of range panics, which is the result \<open>None\<close>.
\<close>

fun EnvMap_loop :: "string list \<Rightarrow> (string \<rightharpoonup> string) \<Rightarrow> (string \<rightharpoonup> string) option" where
  "EnvMap_loop [] envMap = Some envMap"
| "EnvMap_loop (e # es) envMap =
     (let parts = SplitN e (CHR ''='') 2 in
      case index parts 0 of
        None \<Rightarrow> None
      | Some k \<Rightarrow>
          (case index parts 1 of
             None \<Rightarrow> None
           | Some v \<Rightarrow> EnvMap_loop es (envMap(k \<mapsto> v))))"

definition EnvMap :: "NodeContainerConfig \<Rightarrow> (string \<rightharpoonup> string) option" where
  "EnvMap c = EnvMap_loop (Env (Config c)) Map.empty"

subsection \<open>Images\<close>

definition image_c :: "NodeContainerConfig \<Rightarrow> string" where
  "image_c c = (if PinnedImage c \<noteq> [] then PinnedImage c else Image_c (Config c))"

text \<open>
  \<open>shouldPinImage\<close>: \<open>parts\<close> has at least one element (three pieces are asked for),
  so the read of its last element is in range.
\<close>

definition shouldPinImage :: "string \<Rightarrow> bool" where
  "shouldPinImage img =
     (let parts = SplitN img (CHR ''/'') 3;
          lastPart = parts ! (length parts - 1);
          versionParts = SplitN lastPart (CHR '':'') 2
      in length versionParts < 2 \<or> versionParts ! 1 = ''latest'')"

text \<open>
  \<open>pullWithRetry\<close>: one buffer receives the output of every attempt; the loop counts
  \<open>maxTries\<close> down and keeps the error of the latest attempt in \<open>err\<close>.
\<close>

function pullWithRetry_loop ::
  "env \<Rightarrow> string \<Rightarrow> int \<Rightarrow> error option \<Rightarrow> string \<Rightarrow> call list
     \<Rightarrow> (string \<times> error option) \<times> call list" where
  "pullWithRetry_loop e img maxTries err buf tr =
     (if maxTries > 0 then
        (case answer e tr (PullImageCall img) of
           None \<Rightarrow> ((buf @ pull_output e tr img, None), tr @ [PullImageCall img])
         | Some x \<Rightarrow>
             pullWithRetry_loop e img (maxTries - 1) (Some x)
               (buf @ pull_output e tr img) (tr @ [PullImageCall img]))
      else (([], err), tr))"
  by pat_completeness auto
termination
  by (relation "measure (\<lambda>(e, img, maxTries, err, buf, tr). nat maxTries)") auto

declare pullWithRetry_loop.simps [simp del]

definition pullWithRetry ::
  "env \<Rightarrow> string \<Rightarrow> int \<Rightarrow> call list \<Rightarrow> (string \<times> error option) \<times> call list" where
  "pullWithRetry e img maxTries tr = pullWithRetry_loop e img maxTries None [] tr"

text \<open>
  \<open>pullImage\<close> returns the image and the error, the configuration with its
  \<open>PinnedImage\<close> field as the method leaves it, and the trace.
\<close>

definition pinned_candidate :: "string \<Rightarrow> string \<Rightarrow> string" where
  "pinned_candidate img digest = (if digest \<noteq> [] then img @ ''@'' @ digest else [])"

definition pullImage ::
  "env \<Rightarrow> NodeContainerConfig \<Rightarrow> call list
     \<Rightarrow> (string \<times> error option) \<times> NodeContainerConfig \<times> call list" where
  "pullImage e c tr =
     (let img = image_c c in
      case pullWithRetry e img 3 tr of
        ((output, Some err), tr1) \<Rightarrow> (([], Some err), c, tr1)
      | ((output, None), tr1) \<Rightarrow>
          (if shouldPinImage img then
             (let pinnedImage = pinned_candidate img (fst (GetImageDigest e output)) in
              if pinnedImage \<noteq> img then
                (case do_call e (SetFieldCall (Name c) [] ''PinnedImage'' pinnedImage) tr1 of
                   (err, tr2) \<Rightarrow> ((img, err), c\<lparr>PinnedImage := pinnedImage\<rparr>, tr2))
              else ((img, None), c, tr1))
           else ((img, None), c, tr1)))"

subsection \<open>Creating and starting one container\<close>

text \<open>
  The configuration as \<open>create\<close> hands it to the engine: the pulled image and the
  endpoint variable in front of the environment.
\<close>

definition prepared :: "NodeContainerConfig \<Rightarrow> string \<Rightarrow> string \<Rightarrow> NodeContainerConfig" where
  "prepared c img dockerEndpoint =
     c\<lparr>Config := (Config c)\<lparr>Image_c := img, Env := (''DOCKER_ENDPOINT='' @ dockerEndpoint) # Env (Config c)\<rparr>\<rparr>"

definition create_call :: "NodeContainerConfig \<Rightarrow> call" where
  "create_call c = CreateContainerCall (Name c) (Config c) (HostConfig c)"

definition remove_call :: "NodeContainerConfig \<Rightarrow> call" where
  "remove_call c = RemoveContainerCall (Name c) True"

definition start_call :: "NodeContainerConfig \<Rightarrow> call" where
  "start_call c = StartContainerCall (Name c) (HostConfig c)"

text \<open>
  \<open>dockerClient\<close> builds the client of an endpoint; the only step that can fail is
  \<open>docker.NewClient\<close>.
\<close>

definition dockerClient :: "env \<Rightarrow> string \<Rightarrow> call list \<Rightarrow> error option \<times> call list" where
  "dockerClient e endpoint tr = do_call e (NewClientCall endpoint) tr"

text \<open>
  The type assertion at the end of \<open>create\<close>: an error of type
  \<open>ContainerAlreadyRunning\<close> becomes \<open>nil\<close>, anything else (\<open>nil\<close> included) is
  returned as it is.
\<close>

fun absorb_running :: "error option \<Rightarrow> error option" where
  "absorb_running (Some (ContainerAlreadyRunning ident)) = None"
| "absorb_running err = err"

text \<open>
  The creation and, when asked for, the relaunch: \<open>Inl\<close> is the early return with the
  error of the removal, \<open>Inr\<close> carries on with the value of \<open>err\<close>.
\<close>

definition create_or_relaunch ::
  "env \<Rightarrow> NodeContainerConfig \<Rightarrow> bool \<Rightarrow> call list
     \<Rightarrow> (error \<times> call list) + (error option \<times> call list)" where
  "create_or_relaunch e c relaunch tr =
     (case do_call e (create_call c) tr of
        (err, tr2) \<Rightarrow>
          (if relaunch \<and> err = Some ErrContainerAlreadyExists then
             (case do_call e (remove_call c) tr2 of
                (Some rerr, tr3) \<Rightarrow> Inl (rerr, tr3)
              | (None, tr3) \<Rightarrow> Inr (do_call e (create_call c) tr3))
           else Inr (err, tr2)))"

text \<open>
  \<open>create\<close> returns its error, the configuration as the method leaves it (the
  receiver is a pointer) and the trace. The parameter \<open>poolName\<close> is not used by the
  source either.
\<close>

definition create ::
  "env \<Rightarrow> NodeContainerConfig \<Rightarrow> string \<Rightarrow> string \<Rightarrow> bool \<Rightarrow> call list
     \<Rightarrow> error option \<times> NodeContainerConfig \<times> call list" where
  "create e c dockerEndpoint poolName relaunch tr =
     (case dockerClient e dockerEndpoint tr of
        (Some err, tr0) \<Rightarrow> (Some err, c, tr0)
      | (None, tr0) \<Rightarrow>
          (case pullImage e c tr0 of
             ((img, Some err), c1, tr1) \<Rightarrow>
               (Some err, c1\<lparr>Config := (Config c1)\<lparr>Image_c := img\<rparr>\<rparr>, tr1)
           | ((img, None), c1, tr1) \<Rightarrow>
               (let c3 = prepared c1 img dockerEndpoint in
                case create_or_relaunch e c3 relaunch tr1 of
                  Inl (rerr, tr3) \<Rightarrow> (Some rerr, c3, tr3)
                | Inr (err, tr4) \<Rightarrow>
                    (if err \<noteq> None \<and> err \<noteq> Some ErrContainerAlreadyExists
                     then (err, c3, tr4)
                     else (case do_call e (start_call c3) tr4 of
                             (serr, tr5) \<Rightarrow> (absorb_running serr, c3, tr5))))))"

subsection \<open>Recreating the containers of the cluster\<close>

definition pool_of :: "Node \<Rightarrow> string" where
  "pool_of node = (case Metadata node ''pool'' of None \<Rightarrow> [] | Some p \<Rightarrow> p)"

text \<open>
  The closure \<open>recreateContainer\<close>, up to the value it sends on \<open>errChan\<close>
  (\<open>None\<close> when it sends nothing). Each unit builds its own client, and the engine
  answers it from the calls that unit has made. The progress line written to \<open>w\<close>
  and the log lines are left out.
\<close>

definition recreateContainer :: "env \<Rightarrow> bool \<Rightarrow> Node \<Rightarrow> string \<Rightarrow> error option" where
  "recreateContainer e relaunch node confName =
     (let pool = pool_of node in
      case LoadNodeContainer e pool confName of
        Inl confErr \<Rightarrow> Some confErr
      | Inr containerConfig \<Rightarrow>
          (case fst (create e containerConfig (Address node) pool relaunch []) of
             None \<Rightarrow> None
           | Some confErr \<Rightarrow>
               Some (Err (''[node containers] failed to create container in '' @ Address node
                           @ '' ['' @ pool @ '']: '' @ Error confErr))))"

text \<open>One goroutine per node starts one goroutine per configuration name.\<close>

definition units :: "Node list \<Rightarrow> string list \<Rightarrow> (Node \<times> string) list" where
  "units nodes confNames = concat (map (\<lambda>node. map (\<lambda>confName. (node, confName)) confNames) nodes)"

text \<open>
  The goroutines run in an order the program does not fix. A list of numbers picks it:
  each number selects, modulo what is left, the unit that reaches its send or its
  return next, and once the numbers are used up the rest follows in order.
\<close>

fun schedule :: "nat list \<Rightarrow> 'a list \<Rightarrow> 'a list" where
  "schedule picks [] = []"
| "schedule [] xs = xs"
| "schedule (p # picks) xs =
     (let i = p mod length xs in xs ! i # schedule picks (take i xs @ drop (Suc i) xs))"

text \<open>
  \<open>errChan\<close> holds the values sent and not yet received; \<open>wg\<close> is the counter of the
  wait group, restricted to the units (the goroutine of a node only starts the units
  and is done). A unit that fails sends its error: with room in the buffer the send
  goes through and the deferred \<open>wg.Done()\<close> runs; with the buffer full the send
  blocks, since nothing receives before \<open>wg.Wait()\<close> has returned, and the unit stays
  counted.
\<close>

record run_state =
  errChan :: "error list"
  wg :: nat

fun run_units :: "env \<Rightarrow> bool \<Rightarrow> nat \<Rightarrow> (Node \<times> string) list \<Rightarrow> run_state \<Rightarrow> run_state" where
  "run_units e relaunch cap [] st = st"
| "run_units e relaunch cap (u # us) st =
     (case recreateContainer e relaunch (fst u) (snd u) of
        None \<Rightarrow> run_units e relaunch cap us (st\<lparr>wg := wg st - 1\<rparr>)
      | Some err \<Rightarrow>
          (if length (errChan st) < cap
           then run_units e relaunch cap us (st\<lparr>errChan := errChan st @ [err], wg := wg st - 1\<rparr>)
           else run_units e relaunch cap us st))"

text \<open>A call either returns or stays blocked for ever.\<close>

datatype 'a outcome = Blocks | Returns 'a

definition ensureContainersStarted ::
  "env \<Rightarrow> bool \<Rightarrow> Node list \<Rightarrow> nat list \<Rightarrow> error option outcome" where
  "ensureContainersStarted e relaunch nodes picks =
     (case FindAllScopedConfigNames e of
        Inl err \<Rightarrow> Returns (Some err)
      | Inr confNames \<Rightarrow>
          (case (if length nodes = 0 then UnfilteredNodes e else Inr nodes) of
             Inl err \<Rightarrow> Returns (Some err)
           | Inr nodes' \<Rightarrow>
               (let us = units nodes' confNames;
                    st = run_units e relaunch (length nodes') (schedule picks us)
                           \<lparr>errChan = [], wg = length us\<rparr>
                in if wg st = 0 then
                     (let allErrors = map Error (errChan st) in
                      if length allErrors = 0 then Returns None
                      else Returns (Some (Err (''multiple errors: '' @ Join allErrors '', ''))))
                   else Blocks)))"

definition RecreateContainers :: "env \<Rightarrow> Node list \<Rightarrow> nat list \<Rightarrow> error option outcome" where
  "RecreateContainers e nodes picks = ensureContainersStarted e True nodes picks"

definition RunClusterHook :: "env \<Rightarrow> Node \<Rightarrow> nat list \<Rightarrow> error option outcome" where
  "RunClusterHook e node picks =
     (case snd (InitializeBS e) of
        Some err \<Rightarrow> Returns (Some (Err (''unable to initialize bs node container: '' @ Error err)))
      | None \<Rightarrow>
          (case ensureContainersStarted e False [node] picks of
             Blocks \<Rightarrow> Blocks
           | Returns None \<Rightarrow> Returns None
           | Returns (Some err) \<Rightarrow>
               Returns (Some (Err (''unable to start node containers: '' @ Error err)))))"

subsection \<open>Notions used to state the properties\<close>




text \<open>
  The attempts of a pull that starts after the history \<open>tr\<close>, counted from 0: the
  history before attempt \<open>k\<close>, the engine's answer to it and the output it writes.
\<close>

definition attempt_trace :: "call list \<Rightarrow> string \<Rightarrow> nat \<Rightarrow> call list" where
  "attempt_trace tr img k = tr @ replicate k (PullImageCall img)"

definition attempt_err :: "env \<Rightarrow> string \<Rightarrow> call list \<Rightarrow> nat \<Rightarrow> error option" where
  "attempt_err e img tr k = answer e (attempt_trace tr img k) (PullImageCall img)"

definition attempt_out :: "env \<Rightarrow> string \<Rightarrow> call list \<Rightarrow> nat \<Rightarrow> string" where
  "attempt_out e img tr k = pull_output e (attempt_trace tr img k) img"

text \<open>The errors that the units of a list send, in the order of the list.\<close>

definition sent :: "env \<Rightarrow> bool \<Rightarrow> (Node \<times> string) list \<Rightarrow> error list" where
  "sent e relaunch us = List.map_filter (\<lambda>u. recreateContainer e relaunch (fst u) (snd u)) us"

subsection \<open>Example environments\<close>

text \<open>
  An environment in which every call succeeds, no digest is found in a pull output and
  the store holds no configuration.
\<close>

definition quiet_env :: env where
  "quiet_env =
     \<lparr>answer = (\<lambda>tr c. None),
      pull_output = (\<lambda>tr img. []),
      GetImageDigest = (\<lambda>output. ([], Some (Err ''digest not found''))),
      InitializeBS = (False, None),
      Load = (\<lambda>name pool. Inl (Err ''not found'')),
      FindAllScopedConfigNames = Inr [],
      UnfilteredNodes = Inr []\<rparr>"

text \<open>An engine whose calls fail as long as fewer than \<open>n\<close> calls have been made.\<close>

definition failing_first :: "nat \<Rightarrow> env" where
  "failing_first n =
     quiet_env
       \<lparr>answer := (\<lambda>tr c. if length tr < n
                           then Some (Err (''fault '' @ replicate (Suc (length tr)) (CHR ''I'')))
                           else None),
        pull_output := (\<lambda>tr img. if length tr < n then ''partial;'' else ''done'')\<rparr>"

definition bs_config :: NodeContainerConfig where
  "bs_config =
     \<lparr>Name = ''bs'', PinnedImage = [],
      Config = \<lparr>Image_c = ''tsuru/bs:v1'', Env = [''A=1'']\<rparr>,
      HostConfig = \<lparr>Binds = []\<rparr>\<rparr>"

text \<open>
  An engine scripted by four answers: to the first creation, to the removal, to a
  creation made after the removal, and to the start.
\<close>

definition engine :: "error option \<Rightarrow> error option \<Rightarrow> error option \<Rightarrow> error option \<Rightarrow> env" where
  "engine first removal retry starting =
     quiet_env
       \<lparr>answer := (\<lambda>tr c.
          case c of
            CreateContainerCall name conf host \<Rightarrow>
              (if RemoveContainerCall name True \<in> set tr then retry else first)
          | RemoveContainerCall name force \<Rightarrow> removal
          | StartContainerCall name host \<Rightarrow> starting
          | _ \<Rightarrow> None)\<rparr>"

definition untagged_config :: NodeContainerConfig where
  "untagged_config = bs_config\<lparr>Config := (Config bs_config)\<lparr>Image_c := ''tsuru/bs''\<rparr>\<rparr>"

text \<open>An environment whose pulls print a digest that \<open>GetImageDigest\<close> finds.\<close>

definition digest_env :: env where
  "digest_env =
     quiet_env
       \<lparr>pull_output := (\<lambda>tr img. ''Digest: sha256:abc''),
        GetImageDigest := (\<lambda>output. (''sha256:abc'', None))\<rparr>"

text \<open>A store whose single-field update fails; no digest is found in a pull output.\<close>

definition store_down_env :: env where
  "store_down_env =
     quiet_env
       \<lparr>answer := (\<lambda>tr c. case c of SetFieldCall name pool field v \<Rightarrow> Some (Err ''store down'')
                           | _ \<Rightarrow> None)\<rparr>"

definition n1_endpoint :: string where
  "n1_endpoint = ''http://n1:2375''"

definition bs_prepared :: NodeContainerConfig where
  "bs_prepared = prepared bs_config ''tsuru/bs:v1'' n1_endpoint"

definition node1 :: Node where
  "node1 = \<lparr>Address = n1_endpoint, Metadata = [''pool'' \<mapsto> ''dev'']\<rparr>"

definition node2 :: Node where
  "node2 = \<lparr>Address = ''http://n2:2375'', Metadata = Map.empty\<rparr>"

text \<open>A store that lists two configuration names and can load neither.\<close>

definition unloadable_env :: env where
  "unloadable_env = quiet_env\<lparr>FindAllScopedConfigNames := Inr [''bs'', ''proxy'']\<rparr>"

text \<open>
  A store with the two configurations \<open>bs\<close> and \<open>proxy\<close>, and nodes whose docker
  endpoint accepts no connection.
\<close>

definition unreachable_env :: env where
  "unreachable_env =
     quiet_env
       \<lparr>answer := (\<lambda>tr c. case c of NewClientCall ep \<Rightarrow> Some (Err ''cannot connect'') | _ \<Rightarrow> None),
        Load := (\<lambda>name pool. Inr (bs_config\<lparr>Name := name\<rparr>)),
        FindAllScopedConfigNames := Inr [''bs'', ''proxy'']\<rparr>"


section \<open>Properties\<close>

subsection \<open>Splitting and joining\<close>

lemma SplitN_2:
  "SplitN s sep 2 =
     (if sep \<in> set s
      then [takeWhile (\<lambda>c. c \<noteq> sep) s, tl (dropWhile (\<lambda>c. c \<noteq> sep) s)]
      else [s])"
  by (simp add: numeral_2_eq_2)

lemma SplitN_3:
  "SplitN s sep 3 =
     (if sep \<in> set s
      then takeWhile (\<lambda>c. c \<noteq> sep) s # SplitN (tl (dropWhile (\<lambda>c. c \<noteq> sep) s)) sep 2
      else [s])"
  by (simp add: numeral_3_eq_3 numeral_2_eq_2)

lemma index_SplitN_2_0:
  "index (SplitN e sep 2) 0 = Some (if sep \<in> set e then takeWhile (\<lambda>c. c \<noteq> sep) e else e)"
  by (simp add: SplitN_2 index_def)

lemma index_SplitN_2_1:
  "index (SplitN e sep 2) (Suc 0) =
     (if sep \<in> set e then Some (tl (dropWhile (\<lambda>c. c \<noteq> sep) e)) else None)"
  by (simp add: SplitN_2 index_def)

subsection \<open>Validation\<close>

text \<open>
  C6. Whenever the name of the configuration is empty (whatever the pool), or its image
  is set while the pool is not the default one, \<open>AddNewContainer\<close> and
  \<open>UpdateContainer\<close> return a \<open>ValidationErr\<close> and leave the trace as it was: the
  store has not been called and nothing is saved.
\<close>

theorem validation_rejects_before_store:
  assumes "Name c = [] \<or> (Image_c (Config c) \<noteq> [] \<and> pool \<noteq> [])"
  shows "\<exists>message.
           AddNewContainer e pool c tr = (Some (ValidationErr message), tr)
         \<and> UpdateContainer e pool c tr = (Some (ValidationErr message), tr)"
  using assms by (auto simp: AddNewContainer_def UpdateContainer_def validate_def)

theorem validation_rejects_before_store_witness:
  "(\<exists>message.
      AddNewContainer quiet_env [] (bs_config\<lparr>Name := []\<rparr>) [] = (Some (ValidationErr message), [])
    \<and> UpdateContainer quiet_env [] (bs_config\<lparr>Name := []\<rparr>) [] = (Some (ValidationErr message), []))
   \<and> (\<exists>message.
      AddNewContainer quiet_env ''dev'' bs_config [] = (Some (ValidationErr message), [])
    \<and> UpdateContainer quiet_env ''dev'' bs_config [] = (Some (ValidationErr message), []))"
proof -
  have named: "Name (bs_config\<lparr>Name := []\<rparr>) = []
      \<or> (Image_c (Config (bs_config\<lparr>Name := []\<rparr>)) \<noteq> [] \<and> ([]::string) \<noteq> [])"
    by simp
  have pooled: "Name bs_config = [] \<or> (Image_c (Config bs_config) \<noteq> [] \<and> ''dev'' \<noteq> [])"
    by (simp add: bs_config_def)
  show ?thesis
    using validation_rejects_before_store [OF named, of quiet_env "[]"]
      validation_rejects_before_store [OF pooled, of quiet_env "[]"]
    by simp
qed

subsection \<open>Image references\<close>



subsection \<open>Environment variables\<close>

lemma EnvMap_loop_None:
  "(EnvMap_loop es m = None) = (\<not> list_all (\<lambda>e. CHR ''='' \<in> set e) es)"
  by (induction es arbitrary: m) (simp_all add: index_SplitN_2_0 index_SplitN_2_1 Let_def)

text \<open>
  C9. \<open>EnvMap\<close> returns a map exactly on the configurations all of whose \<open>Env\<close>
  entries contain \<open>=\<close>; as soon as one entry has none, the read of the second piece
  is out of range and the call panics.
\<close>

theorem EnvMap_panics_iff_entry_without_equals:
  "(EnvMap c = None) = (\<not> list_all (\<lambda>e. CHR ''='' \<in> set e) (Env (Config c)))"
  by (simp add: EnvMap_def EnvMap_loop_None)

subsection \<open>Pulling with retries\<close>

text \<open>
  C10. With \<open>maxTries \<le> 0\<close> the loop body never runs: \<open>pullWithRetry\<close> makes no
  call to the engine and returns the empty output with a \<open>nil\<close> error.
\<close>

theorem pullWithRetry_without_tries:
  "maxTries \<le> 0 \<Longrightarrow> pullWithRetry e img maxTries tr = (([], None), tr)"
  by (simp add: pullWithRetry_def pullWithRetry_loop.simps)

theorem pullWithRetry_without_tries_witness:
  "(0::int) \<le> 0 \<and> pullWithRetry (failing_first 5) ''x/y'' 0 [] = (([], None), [])
   \<and> (- 2::int) \<le> 0 \<and> pullWithRetry (failing_first 5) ''x/y'' (- 2) [] = (([], None), [])"
proof -
  have z: "(0::int) \<le> 0" and m: "(- 2::int) \<le> 0" by simp_all
  show ?thesis
    using pullWithRetry_without_tries [OF z, of "failing_first 5" "''x/y''" "[]"]
      pullWithRetry_without_tries [OF m, of "failing_first 5" "''x/y''" "[]"]
    by simp
qed

lemma attempt_trace_0: "attempt_trace tr img 0 = tr"
  by (simp add: attempt_trace_def)

lemma attempt_trace_Suc: "attempt_trace tr img (Suc k) = attempt_trace (tr @ [PullImageCall img]) img k"
  by (simp add: attempt_trace_def)

lemma attempt_err_Suc: "attempt_err e img tr (Suc k) = attempt_err e img (tr @ [PullImageCall img]) k"
  by (simp add: attempt_err_def attempt_trace_Suc)

lemma attempt_out_Suc: "attempt_out e img tr (Suc k) = attempt_out e img (tr @ [PullImageCall img]) k"
  by (simp add: attempt_out_def attempt_trace_Suc)


lemma find_map_comp: "find P (map f xs) = map_option f (find (\<lambda>x. P (f x)) xs)"
  by (induction xs) simp_all

lemma upt_0_Suc: "[0..<Suc n] = 0 # map Suc [0..<n]"
  by (simp add: upt_conv_Cons map_Suc_upt del: upt_Suc)

lemma pullWithRetry_loop_find:
  "pullWithRetry_loop e img (int n) err buf tr =
     (case find (\<lambda>k. attempt_err e img tr k = None) [0..<n] of
        Some k \<Rightarrow>
          ((buf @ concat (map (attempt_out e img tr) [0..<Suc k]), None), attempt_trace tr img (Suc k))
      | None \<Rightarrow>
          (([], if n = 0 then err else attempt_err e img tr (n - 1)), attempt_trace tr img n))"
proof (induction n arbitrary: err buf tr)
  case 0
  show ?case by (simp add: pullWithRetry_loop.simps attempt_trace_0)
next
  case (Suc n)
  let ?tr' = "tr @ [PullImageCall img]"
  show ?case
  proof (cases "answer e tr (PullImageCall img)")
    case None
    then have a0: "attempt_err e img tr 0 = None"
      by (simp add: attempt_err_def attempt_trace_0)
    have "pullWithRetry_loop e img (int (Suc n)) err buf tr =
            ((buf @ pull_output e tr img, None), ?tr')"
      using None by (subst pullWithRetry_loop.simps) simp
    moreover have "find (\<lambda>k. attempt_err e img tr k = None) [0..<Suc n] = Some 0"
      using a0 by (simp add: upt_0_Suc del: upt_Suc)
    moreover have "[0..<Suc 0] = [0]" by simp
    ultimately show ?thesis
      by (simp add: attempt_out_def attempt_trace_def del: upt_Suc)
  next
    case (Some x)
    then have a0: "attempt_err e img tr 0 = Some x"
      by (simp add: attempt_err_def attempt_trace_0)
    have step: "pullWithRetry_loop e img (int (Suc n)) err buf tr =
            pullWithRetry_loop e img (int n) (Some x) (buf @ pull_output e tr img) ?tr'"
      using Some by (subst pullWithRetry_loop.simps) simp
    have fnd: "find (\<lambda>k. attempt_err e img tr k = None) [0..<Suc n] =
            map_option Suc (find (\<lambda>k. attempt_err e img ?tr' k = None) [0..<n])"
      using a0 by (simp add: upt_0_Suc find_map_comp attempt_err_Suc del: upt_Suc)
    have outs: "\<And>k. concat (map (attempt_out e img tr) [0..<Suc (Suc k)]) =
            pull_output e tr img @ concat (map (attempt_out e img ?tr') [0..<Suc k])"
    proof -
      fix k
      have "[0..<Suc (Suc k)] = 0 # map Suc [0..<Suc k]" by (rule upt_0_Suc)
      moreover have "attempt_out e img tr 0 = pull_output e tr img"
        by (simp add: attempt_out_def attempt_trace_0)
      moreover have "attempt_out e img tr \<circ> Suc = attempt_out e img ?tr'"
        by (rule ext) (simp add: attempt_out_Suc)
      ultimately show "concat (map (attempt_out e img tr) [0..<Suc (Suc k)]) =
            pull_output e tr img @ concat (map (attempt_out e img ?tr') [0..<Suc k])"
        by (simp del: upt_Suc)
    qed
    show ?thesis
    proof (cases "find (\<lambda>k. attempt_err e img ?tr' k = None) [0..<n]")
      case None
      then show ?thesis
        using step fnd Suc.IH[of "Some x" "buf @ pull_output e tr img" ?tr'] a0
        by (cases n) (simp_all add: attempt_trace_Suc attempt_err_Suc del: upt_Suc)
    next
      case (Some k)
      then show ?thesis
        using step fnd Suc.IH[of "Some x" "buf @ pull_output e tr img" ?tr'] outs[of k]
        by (simp add: attempt_trace_Suc del: upt_Suc)
    qed
  qed
qed

text \<open>
  C5. For \<open>maxTries \<ge> 1\<close> the attempts follow one another without any other call in
  between. If one of the first \<open>maxTries\<close> attempts succeeds, the call stops at the
  first that does, after \<open>k + 1\<close> pulls, and returns without error what the attempts
  so far have written to the buffer; if none succeeds, it stops after \<open>maxTries\<close>
  pulls and returns the error of the last of them.
\<close>

theorem pullWithRetry_attempts:
  assumes "1 \<le> maxTries"
  shows "pullWithRetry e img maxTries tr =
     (case find (\<lambda>k. attempt_err e img tr k = None) [0..<nat maxTries] of
        Some k \<Rightarrow>
          ((concat (map (attempt_out e img tr) [0..<Suc k]), None), attempt_trace tr img (Suc k))
      | None \<Rightarrow>
          (([], attempt_err e img tr (nat maxTries - 1)), attempt_trace tr img (nat maxTries)))"
proof -
  obtain n where n: "maxTries = int n" "n \<noteq> 0"
    using assms by (metis nat_0_iff nat_eq_iff not_one_le_zero zero_le_one order_trans)
  show ?thesis
    unfolding n(1) using n(2)
    by (simp add: pullWithRetry_def pullWithRetry_loop_find del: upt_Suc split: option.split)
qed

theorem pullWithRetry_attempts_witness:
  "(1::int) \<le> 3
   \<and> pullWithRetry (failing_first 2) ''x/y'' 3 [] =
       ((''partial;partial;done'', None),
        [PullImageCall ''x/y'', PullImageCall ''x/y'', PullImageCall ''x/y''])
   \<and> pullWithRetry (failing_first 3) ''x/y'' 3 [] =
       (([], Some (Err ''fault III'')),
        [PullImageCall ''x/y'', PullImageCall ''x/y'', PullImageCall ''x/y''])"
proof -
  have h: "(1::int) \<le> 3" by simp
  have three: "[0..<nat 3] = [0, Suc 0, Suc (Suc 0)]"
    by (simp add: eval_nat_numeral)
  show ?thesis
    using pullWithRetry_attempts [OF h, of "failing_first 2" "''x/y''" "[]"]
      pullWithRetry_attempts [OF h, of "failing_first 3" "''x/y''" "[]"]
    by (simp add: three attempt_err_def attempt_out_def attempt_trace_def
        failing_first_def quiet_env_def eval_nat_numeral)
qed

subsection \<open>Pinning the pulled image\<close>

lemma pullWithRetry_first_try:
  "answer e tr (PullImageCall img) = None \<Longrightarrow>
     pullWithRetry e img 3 tr = ((pull_output e tr img, None), tr @ [PullImageCall img])"
  by (simp add: pullWithRetry_def pullWithRetry_loop.simps [of e img 3])

lemma shouldPinImage_examples:
  "shouldPinImage ''tsuru/bs''" "\<not> shouldPinImage ''tsuru/bs:v1''"
  by (simp_all add: shouldPinImage_def Let_def SplitN_3 SplitN_2)

text \<open>
  C4, as the code has it. After a successful pull, \<open>pullImage\<close> makes the single-field
  store update exactly when \<open>shouldPinImage\<close> holds for the effective image and the
  value to be stored differs from the image, where that value is \<open>image@digest\<close> if a
  digest was extracted and the empty string if none was; otherwise it makes no store
  call. The error of the digest extraction is discarded: the error returned is the
  answer of the store update, and \<open>nil\<close> when no update is made.
\<close>

theorem pullImage_after_pull:
  assumes "pullWithRetry e (image_c c) 3 tr = ((output, None), tr1)"
  shows "pullImage e c tr =
     (let img = image_c c;
          pinned = pinned_candidate img (fst (GetImageDigest e output));
          upd = SetFieldCall (Name c) [] ''PinnedImage'' pinned
      in if shouldPinImage img \<and> pinned \<noteq> img
         then ((img, answer e tr1 upd), c\<lparr>PinnedImage := pinned\<rparr>, tr1 @ [upd])
         else ((img, None), c, tr1))"
  using assms by (simp add: pullImage_def Let_def do_call_def)

theorem pullImage_after_pull_witness:
  "pullWithRetry digest_env (image_c untagged_config) 3 [] =
     ((''Digest: sha256:abc'', None), [PullImageCall ''tsuru/bs''])
   \<and> pullImage digest_env untagged_config [] =
     ((''tsuru/bs'', None), untagged_config\<lparr>PinnedImage := ''tsuru/bs@sha256:abc''\<rparr>,
      [PullImageCall ''tsuru/bs'', SetFieldCall ''bs'' [] ''PinnedImage'' ''tsuru/bs@sha256:abc''])"
proof -
  have img: "image_c untagged_config = ''tsuru/bs''"
    by (simp add: image_c_def untagged_config_def bs_config_def)
  have pull: "pullWithRetry digest_env (image_c untagged_config) 3 [] =
     ((''Digest: sha256:abc'', None), [PullImageCall ''tsuru/bs''])"
    unfolding img
    by (subst pullWithRetry_first_try) (simp_all add: digest_env_def quiet_env_def)
  have name: "Name untagged_config = ''bs''"
    by (simp add: untagged_config_def bs_config_def)
  have env: "answer digest_env = (\<lambda>tr c. None)"
      "GetImageDigest digest_env = (\<lambda>output. (''sha256:abc'', None))"
    by (simp_all add: digest_env_def quiet_env_def)
  show ?thesis
    using pull pullImage_after_pull [OF pull]
    by (simp add: img name env shouldPinImage_examples pinned_candidate_def Let_def)
qed

text \<open>
  C4 as stated fails: the pull of the untagged image \<open>tsuru/bs\<close> succeeds, no digest
  is extracted from its output, and the store is updated all the same, with an empty
  \<open>PinnedImage\<close>; when that update fails, \<open>pullImage\<close> returns its error.
\<close>

theorem pullImage_store_update_without_digest:
  "fst (GetImageDigest quiet_env []) = []
   \<and> pullImage quiet_env untagged_config [] =
       ((''tsuru/bs'', None), untagged_config\<lparr>PinnedImage := []\<rparr>,
        [PullImageCall ''tsuru/bs'', SetFieldCall ''bs'' [] ''PinnedImage'' []])
   \<and> fst (GetImageDigest store_down_env []) = []
   \<and> pullImage store_down_env untagged_config [] =
       ((''tsuru/bs'', Some (Err ''store down'')), untagged_config\<lparr>PinnedImage := []\<rparr>,
        [PullImageCall ''tsuru/bs'', SetFieldCall ''bs'' [] ''PinnedImage'' []])"
proof -
  have img: "image_c untagged_config = ''tsuru/bs''"
    by (simp add: image_c_def untagged_config_def bs_config_def)
  have name: "Name untagged_config = ''bs''"
    by (simp add: untagged_config_def bs_config_def)
  have quiet: "answer quiet_env = (\<lambda>tr c. None)"
      "GetImageDigest quiet_env [] = ([], Some (Err ''digest not found''))"
      "pull_output quiet_env = (\<lambda>tr img. [])"
    by (simp_all add: quiet_env_def)
  have down: "answer store_down_env tr (PullImageCall ''tsuru/bs'') = None"
      "answer store_down_env tr (SetFieldCall ''bs'' [] ''PinnedImage'' []) = Some (Err ''store down'')"
      "GetImageDigest store_down_env [] = ([], Some (Err ''digest not found''))"
      "pull_output store_down_env = (\<lambda>tr img. [])" for tr
    by (simp_all add: store_down_env_def quiet_env_def)
  have pull_quiet: "pullWithRetry quiet_env ''tsuru/bs'' 3 [] = (([], None), [PullImageCall ''tsuru/bs''])"
    by (subst pullWithRetry_first_try) (simp_all add: quiet)
  have pull_down: "pullWithRetry store_down_env ''tsuru/bs'' 3 [] = (([], None), [PullImageCall ''tsuru/bs''])"
    by (subst pullWithRetry_first_try) (simp_all add: down)
  have "pullImage quiet_env untagged_config [] =
       ((''tsuru/bs'', None), untagged_config\<lparr>PinnedImage := []\<rparr>,
        [PullImageCall ''tsuru/bs'', SetFieldCall ''bs'' [] ''PinnedImage'' []])"
    using pull_quiet
    by (simp add: pullImage_def img name quiet shouldPinImage_examples pinned_candidate_def Let_def
        do_call_def)
  moreover have "pullImage store_down_env untagged_config [] =
       ((''tsuru/bs'', Some (Err ''store down'')), untagged_config\<lparr>PinnedImage := []\<rparr>,
        [PullImageCall ''tsuru/bs'', SetFieldCall ''bs'' [] ''PinnedImage'' []])"
    using pull_down
    by (simp add: pullImage_def img name down shouldPinImage_examples pinned_candidate_def Let_def
        do_call_def)
  ultimately show ?thesis by (simp add: quiet down)
qed

subsection \<open>Creating and starting one container\<close>

text \<open>
  C3, as the code has it. Once the client is built and the image pulled: a creation
  that succeeds is followed by the start. With \<open>relaunch = false\<close> a creation that
  answers that the container exists is followed by the start as well, and no removal
  is made. With \<open>relaunch = true\<close> such an answer is followed by one forced removal;
  if the removal succeeds, one more creation follows, and then the start unless that
  creation fails with another error; if the removal fails, its error is returned and
  neither a second creation nor a start is made. The start turns an already-running
  error into success and returns every other error; every creation error other than
  the container existing is returned at once.
\<close>

theorem create_lifecycle:
  fixes e c ep pool relaunch tr img c1 tr1
  defines "c3 \<equiv> prepared c1 img ep"
  defines "crt \<equiv> create_call c3" and "rmv \<equiv> remove_call c3" and "strt \<equiv> start_call c3"
  assumes client: "answer e tr (NewClientCall ep) = None"
      and pull: "pullImage e c (tr @ [NewClientCall ep]) = ((img, None), c1, tr1)"
  shows
    "(answer e tr1 crt = None \<longrightarrow>
        create e c ep pool relaunch tr =
          (absorb_running (answer e (tr1 @ [crt]) strt), c3, tr1 @ [crt, strt]))
   \<and> (\<not> relaunch \<and> answer e tr1 crt = Some ErrContainerAlreadyExists \<longrightarrow>
        create e c ep pool relaunch tr =
          (absorb_running (answer e (tr1 @ [crt]) strt), c3, tr1 @ [crt, strt]))
   \<and> (relaunch \<and> answer e tr1 crt = Some ErrContainerAlreadyExists
        \<and> answer e (tr1 @ [crt]) rmv = None
        \<and> (answer e (tr1 @ [crt, rmv]) crt = None
            \<or> answer e (tr1 @ [crt, rmv]) crt = Some ErrContainerAlreadyExists) \<longrightarrow>
        create e c ep pool relaunch tr =
          (absorb_running (answer e (tr1 @ [crt, rmv, crt]) strt), c3, tr1 @ [crt, rmv, crt, strt]))
   \<and> (\<forall>x. relaunch \<and> answer e tr1 crt = Some ErrContainerAlreadyExists
        \<and> answer e (tr1 @ [crt]) rmv = Some x \<longrightarrow>
        create e c ep pool relaunch tr = (Some x, c3, tr1 @ [crt, rmv]))
   \<and> (\<forall>x. relaunch \<and> answer e tr1 crt = Some ErrContainerAlreadyExists
        \<and> answer e (tr1 @ [crt]) rmv = None
        \<and> answer e (tr1 @ [crt, rmv]) crt = Some x \<and> x \<noteq> ErrContainerAlreadyExists \<longrightarrow>
        create e c ep pool relaunch tr = (Some x, c3, tr1 @ [crt, rmv, crt]))
   \<and> (\<forall>x. answer e tr1 crt = Some x \<and> x \<noteq> ErrContainerAlreadyExists \<longrightarrow>
        create e c ep pool relaunch tr = (Some x, c3, tr1 @ [crt]))"
  using client pull unfolding c3_def crt_def rmv_def strt_def
  by (auto simp: create_def dockerClient_def create_or_relaunch_def do_call_def Let_def)


lemma engine_answers:
  "answer (engine first removal retry starting) tr (NewClientCall ep) = None"
  "answer (engine first removal retry starting) tr (PullImageCall img) = None"
  "answer (engine first removal retry starting) tr (create_call c) =
     (if remove_call c \<in> set tr then retry else first)"
  "answer (engine first removal retry starting) tr (remove_call c) = removal"
  "answer (engine first removal retry starting) tr (start_call c) = starting"
  by (simp_all add: engine_def quiet_env_def create_call_def remove_call_def start_call_def)

lemma calls_distinct:
  "remove_call c \<noteq> create_call c'" "remove_call c \<noteq> start_call c'"
  "remove_call c \<noteq> NewClientCall ep" "remove_call c \<noteq> PullImageCall img"
  by (simp_all add: create_call_def remove_call_def start_call_def)

lemma engine_pull:
  "pullImage (engine first removal retry starting) bs_config ([] @ [NewClientCall n1_endpoint]) =
     ((''tsuru/bs:v1'', None), bs_config, [NewClientCall n1_endpoint, PullImageCall ''tsuru/bs:v1''])"
proof -
  have img: "image_c bs_config = ''tsuru/bs:v1''"
    by (simp add: image_c_def bs_config_def)
  have pull: "pullWithRetry (engine first removal retry starting) ''tsuru/bs:v1'' 3 [NewClientCall n1_endpoint] =
      (([], None), [NewClientCall n1_endpoint, PullImageCall ''tsuru/bs:v1''])"
    by (subst pullWithRetry_first_try) (simp_all add: engine_answers, simp add: engine_def quiet_env_def)
  show ?thesis
    using pull by (simp add: pullImage_def img shouldPinImage_examples Let_def)
qed

theorem create_lifecycle_witness:
  "create (engine None None None None) bs_config n1_endpoint ''dev'' False [] =
     (None, bs_prepared,
      [NewClientCall n1_endpoint, PullImageCall ''tsuru/bs:v1'',
       create_call bs_prepared, start_call bs_prepared])
   \<and> create (engine (Some ErrContainerAlreadyExists) None None (Some (ContainerAlreadyRunning ''bs'')))
       bs_config n1_endpoint ''dev'' False [] =
     (None, bs_prepared,
      [NewClientCall n1_endpoint, PullImageCall ''tsuru/bs:v1'',
       create_call bs_prepared, start_call bs_prepared])
   \<and> create (engine (Some ErrContainerAlreadyExists) None None (Some (Err ''cannot start'')))
       bs_config n1_endpoint ''dev'' True [] =
     (Some (Err ''cannot start''), bs_prepared,
      [NewClientCall n1_endpoint, PullImageCall ''tsuru/bs:v1'',
       create_call bs_prepared, remove_call bs_prepared, create_call bs_prepared,
       start_call bs_prepared])
   \<and> create (engine (Some ErrContainerAlreadyExists) (Some (Err ''removal failed'')) None None)
       bs_config n1_endpoint ''dev'' True [] =
     (Some (Err ''removal failed''), bs_prepared,
      [NewClientCall n1_endpoint, PullImageCall ''tsuru/bs:v1'',
       create_call bs_prepared, remove_call bs_prepared])
   \<and> create (engine (Some ErrContainerAlreadyExists) None (Some (Err ''conflict'')) None)
       bs_config n1_endpoint ''dev'' True [] =
     (Some (Err ''conflict''), bs_prepared,
      [NewClientCall n1_endpoint, PullImageCall ''tsuru/bs:v1'',
       create_call bs_prepared, remove_call bs_prepared, create_call bs_prepared])
   \<and> create (engine (Some (Err ''no space'')) None None None) bs_config n1_endpoint ''dev'' False [] =
     (Some (Err ''no space''), bs_prepared,
      [NewClientCall n1_endpoint, PullImageCall ''tsuru/bs:v1'', create_call bs_prepared])"
  using
    create_lifecycle [OF engine_answers(1) engine_pull, of None None None None "''dev''" False]
    create_lifecycle [OF engine_answers(1) engine_pull,
      of "Some ErrContainerAlreadyExists" None None "Some (ContainerAlreadyRunning ''bs'')" "''dev''" False]
    create_lifecycle [OF engine_answers(1) engine_pull,
      of "Some ErrContainerAlreadyExists" None None "Some (Err ''cannot start'')" "''dev''" True]
    create_lifecycle [OF engine_answers(1) engine_pull,
      of "Some ErrContainerAlreadyExists" "Some (Err ''removal failed'')" None None "''dev''" True]
    create_lifecycle [OF engine_answers(1) engine_pull,
      of "Some ErrContainerAlreadyExists" None "Some (Err ''conflict'')" None "''dev''" True]
    create_lifecycle [OF engine_answers(1) engine_pull,
      of "Some (Err ''no space'')" None None None "''dev''" False]
  by (simp add: engine_answers calls_distinct bs_prepared_def)

text \<open>
  C3 as stated fails: with \<open>relaunch = true\<close>, a container that exists and a removal
  that fails, \<open>create\<close> returns the error of the removal after one creation and one
  removal; there is no second creation.
\<close>

theorem create_relaunch_removal_fails:
  "create (engine (Some ErrContainerAlreadyExists) (Some (Err ''removal failed'')) None None)
       bs_config n1_endpoint ''dev'' True [] =
     (Some (Err ''removal failed''), bs_prepared,
      [NewClientCall n1_endpoint, PullImageCall ''tsuru/bs:v1'',
       create_call bs_prepared, remove_call bs_prepared])"
  using engine_pull [of "Some ErrContainerAlreadyExists" "Some (Err ''removal failed'')" None None]
  by (simp add: create_def dockerClient_def create_or_relaunch_def do_call_def Let_def
      engine_answers calls_distinct bs_prepared_def)

subsection \<open>Recreating the containers of the cluster\<close>

text \<open>Every order of the units is the schedule of some list of picks, and a schedule only reorders.\<close>

lemma mset_schedule: "mset (schedule picks xs) = mset xs"
proof (induction picks xs rule: schedule.induct)
  case (3 p picks x xs)
  let ?ys = "x # xs"
  let ?i = "p mod length ?ys"
  have i: "?i < length ?ys" by simp
  have "mset ?ys = mset (take ?i ?ys @ ?ys ! ?i # drop (Suc ?i) ?ys)"
    using id_take_nth_drop[OF i] by simp
  then show ?case using 3 by (simp add: Let_def)
qed simp_all

lemma schedule_reaches_every_order:
  "mset ys = mset xs \<Longrightarrow> \<exists>picks. schedule picks xs = ys"
proof (induction ys arbitrary: xs)
  case Nil
  then have "xs = []" by simp
  then have "schedule [] xs = []" by simp
  then show ?case by blast
next
  case (Cons y ys)
  then have "y \<in> set xs" by (metis list.set_intros(1) set_mset_mset)
  then obtain i where i: "i < length xs" "xs ! i = y" by (auto simp: in_set_conv_nth)
  let ?rest = "take i xs @ drop (Suc i) xs"
  have "xs = take i xs @ y # drop (Suc i) xs"
    using id_take_nth_drop [OF i(1)] i(2) by simp
  then have "mset xs = mset ?rest + {#y#}" by (metis mset.simps(2) mset_append union_mset_add_mset_right add.right_neutral union_commute add_mset_add_single)
  with Cons.prems have "mset ys = mset ?rest" by simp
  then obtain picks where picks: "schedule picks ?rest = ys" using Cons.IH by blast
  obtain x xs' where xs: "xs = x # xs'" using i(1) by (cases xs) auto
  have "schedule (i # picks) xs = y # ys"
    using i picks unfolding xs by (simp add: Let_def)
  then show ?case by blast
qed

lemma sent_Cons:
  "sent e relaunch (u # us) =
     (case recreateContainer e relaunch (fst u) (snd u) of None \<Rightarrow> sent e relaunch us
      | Some err \<Rightarrow> err # sent e relaunch us)"
  by (simp add: sent_def List.map_filter_simps split: option.split)

lemma sent_Nil: "sent e relaunch [] = []"
  by (simp add: sent_def List.map_filter_simps)

lemma mset_sent: "mset (sent e relaunch us) =
   image_mset (\<lambda>u. the (recreateContainer e relaunch (fst u) (snd u)))
     (filter_mset (\<lambda>u. recreateContainer e relaunch (fst u) (snd u) \<noteq> None) (mset us))"
  by (induction us) (auto simp: sent_Cons sent_Nil split: option.split)

lemma mset_sent_schedule: "mset (sent e relaunch (schedule picks us)) = mset (sent e relaunch us)"
  by (simp add: mset_sent mset_schedule)

lemma length_sent_schedule: "length (sent e relaunch (schedule picks us)) = length (sent e relaunch us)"
  using mset_sent_schedule[of e relaunch picks us] by (metis size_mset)

text \<open>
  What a run leaves behind: the buffer takes the errors sent until it is full, and the
  counter stays above zero by the number of units whose send found it full.
\<close>

lemma run_units_result:
  "length (errChan st) \<le> cap \<Longrightarrow> length us \<le> wg st \<Longrightarrow>
     errChan (run_units e relaunch cap us st) =
       errChan st @ take (cap - length (errChan st)) (sent e relaunch us)
     \<and> wg (run_units e relaunch cap us st) =
       wg st - length us + (length (sent e relaunch us) - (cap - length (errChan st)))"
proof (induction us arbitrary: st)
  case Nil
  then show ?case by (simp add: sent_Nil)
next
  case (Cons u us)
  show ?case
  proof (cases "recreateContainer e relaunch (fst u) (snd u)")
    case None
    then show ?thesis
      using Cons.prems Cons.IH[of "st\<lparr>wg := wg st - 1\<rparr>"] by (simp add: sent_Cons)
  next
    case (Some err)
    show ?thesis
    proof (cases "length (errChan st) < cap")
      case True
      then obtain d where d: "cap - length (errChan st) = Suc d"
        by (metis Suc_diff_Suc)
      then have d': "cap - Suc (length (errChan st)) = d" by simp
      show ?thesis
        using Some True Cons.prems d d'
          Cons.IH[of "st\<lparr>errChan := errChan st @ [err], wg := wg st - 1\<rparr>"]
        by (simp add: sent_Cons)
    next
      case False
      with Cons.prems have full: "cap - length (errChan st) = 0" by simp
      show ?thesis
        using Some False Cons.prems full Cons.IH[of st]
        by (simp add: sent_Cons)
    qed
  qed
qed


lemma length_sent_le: "length (sent e relaunch us) \<le> length us"
  by (induction us) (simp_all add: sent_Cons sent_Nil split: option.split)

text \<open>
  With a buffer that has room for one error per unit no send blocks: the counter comes
  down to zero.
\<close>

lemma run_units_with_room_for_all:
  assumes "length us \<le> cap"
  shows "wg (run_units e relaunch cap us \<lparr>errChan = [], wg = length us\<rparr>) = 0"
proof -
  have "length (sent e relaunch us) \<le> cap"
    using length_sent_le [of e relaunch us] assms by simp
  then show ?thesis
    using run_units_result [of "\<lparr>errChan = [], wg = length us\<rparr>" cap us e relaunch] by simp
qed

text \<open>
  The outcome of \<open>ensureContainersStarted\<close> once the configuration names are listed:
  it blocks when more units fail than there are nodes; otherwise it returns \<open>nil\<close> if
  no unit failed and the composite error if some did.
\<close>

lemma ensureContainersStarted_run:
  assumes "FindAllScopedConfigNames e = Inr confNames" and "nodes \<noteq> []"
  shows "ensureContainersStarted e relaunch nodes picks =
     (let errs = sent e relaunch (schedule picks (units nodes confNames)) in
      if length nodes < length errs then Blocks
      else if errs = [] then Returns None
      else Returns (Some (Err (''multiple errors: '' @ Join (map Error errs) '', ''))))"
proof -
  let ?us = "schedule picks (units nodes confNames)"
  let ?st = "\<lparr>errChan = [], wg = length (units nodes confNames)\<rparr>"
  have len: "length ?us = length (units nodes confNames)"
    using mset_schedule[of picks "units nodes confNames"] by (metis size_mset)
  have r: "errChan (run_units e relaunch (length nodes) ?us ?st) =
             take (length nodes) (sent e relaunch ?us)
         \<and> wg (run_units e relaunch (length nodes) ?us ?st) =
             length (sent e relaunch ?us) - length nodes"
    using run_units_result[of ?st "length nodes" ?us e relaunch] len by simp
  show ?thesis
    using assms r by (auto simp: ensureContainersStarted_def Let_def)
qed

lemma ensureContainersStarted_blocks_iff:
  assumes "FindAllScopedConfigNames e = Inr confNames" and "nodes \<noteq> []"
  shows "(ensureContainersStarted e relaunch nodes picks = Blocks) =
           (length nodes < length (sent e relaunch (units nodes confNames)))"
  using assms
  by (simp add: ensureContainersStarted_run Let_def length_sent_schedule)

lemma sublist_prepend: "sublist xs ys \<Longrightarrow> sublist xs (ps @ ys)"
proof -
  assume "sublist xs ys"
  then obtain as bs where "ys = as @ xs @ bs" by (auto simp: sublist_def)
  then have "ps @ ys = (ps @ as) @ xs @ bs" by simp
  then show ?thesis unfolding sublist_def by blast
qed

lemma sublist_Join: "x \<in> set xs \<Longrightarrow> sublist x (Join xs sep)"
proof (induction xs sep rule: Join.induct)
  case (3 x' y ys sep)
  show ?case
  proof (cases "x = x'")
    case True
    then show ?thesis by (simp add: sublist_append_rightI)
  next
    case False
    with 3 have "sublist x (Join (y # ys) sep)" by simp
    then have "sublist x (x' @ sep @ Join (y # ys) sep)"
      using sublist_prepend[of x "Join (y # ys) sep" "x' @ sep"] by simp
    then show ?thesis by simp
  qed
qed simp_all

text \<open>
  A call that returns reports as the claims say: \<open>nil\<close> exactly when no unit failed,
  and otherwise one error whose message contains the message of every failure.
\<close>

lemma ensureContainersStarted_reports:
  assumes "FindAllScopedConfigNames e = Inr confNames" and "nodes \<noteq> []"
      and "ensureContainersStarted e relaunch nodes picks = Returns r"
  shows "(r = None) = (sent e relaunch (units nodes confNames) = [])"
    and "err \<in> set (sent e relaunch (units nodes confNames)) \<Longrightarrow>
           \<exists>m. r = Some (Err m) \<and> sublist (Error err) m"
proof -
  let ?errs = "sent e relaunch (schedule picks (units nodes confNames))"
  have run: "ensureContainersStarted e relaunch nodes picks =
     (if length nodes < length ?errs then Blocks
      else if ?errs = [] then Returns None
      else Returns (Some (Err (''multiple errors: '' @ Join (map Error ?errs) '', ''))))"
    using assms(1,2) by (simp add: ensureContainersStarted_run Let_def)
  have same: "set ?errs = set (sent e relaunch (units nodes confNames))"
    using mset_sent_schedule[of e relaunch picks "units nodes confNames"] by (metis set_mset_mset)
  then have nil: "(?errs = []) = (sent e relaunch (units nodes confNames) = [])"
    by (metis set_empty)
  show "(r = None) = (sent e relaunch (units nodes confNames) = [])"
    using run assms(3) nil by (auto split: if_splits)
  assume "err \<in> set (sent e relaunch (units nodes confNames))"
  then have mem: "err \<in> set ?errs" using same by simp
  then have "sublist (Error err) (Join (map Error ?errs) '', '')"
    by (intro sublist_Join) simp
  then have "sublist (Error err) (''multiple errors: '' @ Join (map Error ?errs) '', '')"
    by (rule sublist_prepend)
  moreover have "?errs \<noteq> []" using mem by auto
  ultimately show "\<exists>m. r = Some (Err m) \<and> sublist (Error err) m"
    using run assms(3) by (auto split: if_splits)
qed


lemma RunClusterHook_init_failure:
  "snd (InitializeBS e) = Some err \<Longrightarrow>
     RunClusterHook e node picks =
       Returns (Some (Err (''unable to initialize bs node container: '' @ Error err)))"
  by (simp add: RunClusterHook_def)

lemma RunClusterHook_outcome:
  assumes "snd (InitializeBS e) = None" and "FindAllScopedConfigNames e = Inr confNames"
  shows "RunClusterHook e node picks =
     (let errs = sent e False (schedule picks (units [node] confNames)) in
      if 1 < length errs then Blocks
      else if errs = [] then Returns None
      else Returns (Some (Err (''unable to start node containers: multiple errors: ''
                                @ Join (map Error errs) '', ''))))"
  using assms ensureContainersStarted_run [OF assms(2), of "[node]" False picks]
  by (simp add: RunClusterHook_def Let_def)

lemma sent_unloadable:
  "sent unloadable_env relaunch (units [node1] [''bs'', ''proxy'']) = [Err ''not found'', Err ''not found'']"
  by (simp add: sent_Cons sent_Nil units_def recreateContainer_def LoadNodeContainer_def
      unloadable_env_def quiet_env_def Let_def)

text \<open>
  C2 does not hold of the code. With one node and two configuration names that both
  fail to load, \<open>errChan\<close> has room for one error: the send of the second unit finds
  the buffer full and blocks, the wait group never reaches zero, and
  \<open>ensureContainersStarted\<close> does not return, in whatever order the units run and
  for either value of \<open>relaunch\<close>.
\<close>

theorem ensureContainersStarted_blocks_one_node_two_failures:
  "ensureContainersStarted unloadable_env relaunch [node1] picks = Blocks"
proof -
  have names: "FindAllScopedConfigNames unloadable_env = Inr [''bs'', ''proxy'']"
    by (simp add: unloadable_env_def)
  have "length [node1] < length (sent unloadable_env relaunch (units [node1] [''bs'', ''proxy'']))"
    by (simp add: sent_unloadable)
  then show ?thesis
    using ensureContainersStarted_blocks_iff [OF names, of "[node1]" relaunch picks] by simp
qed

text \<open>
  C8 does not hold of the code. When the node of the event has two configurations
  that both fail, the recreation stage blocks as above and \<open>RunClusterHook\<close> returns
  neither \<open>nil\<close> nor a wrapped error.
\<close>

theorem RunClusterHook_blocks_two_failures:
  "RunClusterHook unloadable_env node1 picks = Blocks"
proof -
  have names: "FindAllScopedConfigNames unloadable_env = Inr [''bs'', ''proxy'']"
    by (simp add: unloadable_env_def)
  have init: "snd (InitializeBS unloadable_env) = None"
    by (simp add: unloadable_env_def quiet_env_def)
  have "length [node1] < length (sent unloadable_env False (units [node1] [''bs'', ''proxy'']))"
    by (simp add: sent_unloadable)
  then have "ensureContainersStarted unloadable_env False [node1] picks = Blocks"
    using ensureContainersStarted_blocks_iff [OF names, of "[node1]" False picks] by simp
  then show ?thesis by (simp add: RunClusterHook_def init)
qed

lemma create_unreachable:
  "fst (create unreachable_env c ep pool relaunch []) = Some (Err ''cannot connect'')"
  by (simp add: create_def dockerClient_def do_call_def unreachable_env_def quiet_env_def)

lemma sent_unreachable:
  "sent unreachable_env relaunch (units [node1, node2] [''bs'', ''proxy'']) =
     [Err ''[node containers] failed to create container in http://n1:2375 [dev]: cannot connect'',
      Err ''[node containers] failed to create container in http://n1:2375 [dev]: cannot connect'',
      Err ''[node containers] failed to create container in http://n2:2375 []: cannot connect'',
      Err ''[node containers] failed to create container in http://n2:2375 []: cannot connect'']"
proof -
  have load: "\<And>pool name. LoadNodeContainer unreachable_env pool name = Inr (bs_config\<lparr>Name := name\<rparr>)"
    by (simp add: LoadNodeContainer_def unreachable_env_def)
  show ?thesis
    by (simp add: sent_Cons sent_Nil units_def recreateContainer_def load create_unreachable
        Let_def pool_of_def node1_def node2_def n1_endpoint_def)
qed

text \<open>
  C1 does not hold of the code. With two nodes whose docker endpoint cannot be reached
  and two configurations, the four units all fail; the buffer takes two errors, two
  units stay blocked in their send, and \<open>ensureContainersStarted\<close> returns no
  composite error: none of the four failures is reported.
\<close>

theorem ensureContainersStarted_reports_nothing_when_blocked:
  "length (sent unreachable_env relaunch (units [node1, node2] [''bs'', ''proxy''])) = 4
   \<and> ensureContainersStarted unreachable_env relaunch [node1, node2] picks = Blocks"
proof -
  have names: "FindAllScopedConfigNames unreachable_env = Inr [''bs'', ''proxy'']"
    by (simp add: unreachable_env_def)
  have four: "length (sent unreachable_env relaunch (units [node1, node2] [''bs'', ''proxy''])) = 4"
    by (simp add: sent_unreachable)
  then have "length [node1, node2]
      < length (sent unreachable_env relaunch (units [node1, node2] [''bs'', ''proxy'']))"
    by simp
  then have "ensureContainersStarted unreachable_env relaunch [node1, node2] picks = Blocks"
    using ensureContainersStarted_blocks_iff [OF names, of "[node1, node2]" relaunch picks] by simp
  with four show ?thesis by simp
qed

end
